theory Spec2Isabelle
  imports Main
begin

section \<open>Shared Go vocabulary\<close>

text \<open>
  A Go pointer is an \<open>option\<close>: \<open>None\<close> is the nil pointer. \<open>aws.StringValue\<close>
  reads a \<open>*string\<close> and gives the empty string for nil.
\<close>

definition StringValue :: "string option \<Rightarrow> string" where
  "StringValue p = (case p of None \<Rightarrow> [] | Some s \<Rightarrow> s)"

text \<open>
  The first component of a \<open>resource.StateRefreshFunc\<close> result is an \<open>interface{}\<close>.
  The probes put three kinds of value there: the untyped \<open>nil\<close>, a string, and a
  pointer to an SDK struct (which may itself be a nil pointer, and is then still a
  non-nil interface value).
\<close>

datatype 'o iface = Nil | StringVal string | Ptr "'o option"

text \<open>
  A function either returns its values or panics (a nil pointer dereference).
\<close>

datatype 'a outcome = Panic | Return 'a

type_synonym ('o, 'e) refresh = "'o iface \<times> string \<times> 'e option"

text \<open>
  Finders and SDK operations talk to the remote service. They are parameters of the
  model: a call takes the state \<open>'w\<close> of the world and returns the Go pair
  \<open>(output, err)\<close> with the world after the call.
\<close>

type_synonym ('c, 'k, 'o, 'e, 'w) finder = "'c \<Rightarrow> 'k \<Rightarrow> 'w \<Rightarrow> ('o option \<times> 'e option) \<times> 'w"

text \<open>
  Modelled from the spec: \<open>tfresource.NotFound\<close> is not among the sources. Which
  errors count as "not found" is the parameter \<open>nf\<close>; the nil error is not one of them
  (the probes fall through to their success branch on it).
\<close>

definition NotFound :: "('e \<Rightarrow> bool) \<Rightarrow> 'e option \<Rightarrow> bool" where
  "NotFound nf err = (case err of None \<Rightarrow> False | Some e \<Rightarrow> nf e)"

text \<open>
  Modelled from the spec: \<open>tfawserr.ErrCodeEquals\<close> is not among the sources. The
  parameter \<open>ec\<close> says whether a non-nil error carries the given code; the nil error
  carries none.
\<close>

definition ErrCodeEquals :: "('e \<Rightarrow> string \<Rightarrow> bool) \<Rightarrow> 'e option \<Rightarrow> string \<Rightarrow> bool" where
  "ErrCodeEquals ec err code = (case err of None \<Rightarrow> False | Some e \<Rightarrow> ec e code)"

section \<open>Direct Connect status probes\<close>

text \<open>Of the SDK structs only the fields that the probes read are modelled.\<close>

record Connection =
  Connection_ConnectionState :: "string option"

record Gateway =
  Gateway_DirectConnectGatewayState :: "string option"

record GatewayAssociation =
  GatewayAssociation_AssociationState :: "string option"

record Lag =
  Lag_LagState :: "string option"

definition ConnectionState ::
  "('e \<Rightarrow> bool) \<Rightarrow> ('c, string, 'm Connection_scheme, 'e, 'w) finder \<Rightarrow> 'c \<Rightarrow> string \<Rightarrow>
   'w \<Rightarrow> ('m Connection_scheme, 'e) refresh outcome \<times> 'w" where
  "ConnectionState nf ConnectionByID conn id' w =
     (case ConnectionByID conn id' w of ((output, err), w') \<Rightarrow>
        (if NotFound nf err then Return (Nil, [], None)
         else if err \<noteq> None then Return (Nil, [], err)
         else (case output of
                 None \<Rightarrow> Panic
               | Some out \<Rightarrow> Return (Ptr output, StringValue (Connection_ConnectionState out), None)),
         w'))"

definition GatewayState ::
  "('e \<Rightarrow> bool) \<Rightarrow> ('c, string, 'm Gateway_scheme, 'e, 'w) finder \<Rightarrow> 'c \<Rightarrow> string \<Rightarrow>
   'w \<Rightarrow> ('m Gateway_scheme, 'e) refresh outcome \<times> 'w" where
  "GatewayState nf GatewayByID conn id' w =
     (case GatewayByID conn id' w of ((output, err), w') \<Rightarrow>
        (if NotFound nf err then Return (Nil, [], None)
         else if err \<noteq> None then Return (Nil, [], err)
         else (case output of
                 None \<Rightarrow> Panic
               | Some out \<Rightarrow> Return (Ptr output, StringValue (Gateway_DirectConnectGatewayState out), None)),
         w'))"

definition GatewayAssociationState ::
  "('e \<Rightarrow> bool) \<Rightarrow> ('c, string, 'm GatewayAssociation_scheme, 'e, 'w) finder \<Rightarrow> 'c \<Rightarrow> string \<Rightarrow>
   'w \<Rightarrow> ('m GatewayAssociation_scheme, 'e) refresh outcome \<times> 'w" where
  "GatewayAssociationState nf GatewayAssociationByID conn id' w =
     (case GatewayAssociationByID conn id' w of ((output, err), w') \<Rightarrow>
        (if NotFound nf err then Return (Nil, [], None)
         else if err \<noteq> None then Return (Nil, [], err)
         else (case output of
                 None \<Rightarrow> Panic
               | Some out \<Rightarrow> Return (Ptr output, StringValue (GatewayAssociation_AssociationState out), None)),
         w'))"

definition HostedConnectionState ::
  "('e \<Rightarrow> bool) \<Rightarrow> ('c, string, 'm Connection_scheme, 'e, 'w) finder \<Rightarrow> 'c \<Rightarrow> string \<Rightarrow>
   'w \<Rightarrow> ('m Connection_scheme, 'e) refresh outcome \<times> 'w" where
  "HostedConnectionState nf HostedConnectionByID conn id' w =
     (case HostedConnectionByID conn id' w of ((output, err), w') \<Rightarrow>
        (if NotFound nf err then Return (Nil, [], None)
         else if err \<noteq> None then Return (Nil, [], err)
         else (case output of
                 None \<Rightarrow> Panic
               | Some out \<Rightarrow> Return (Ptr output, StringValue (Connection_ConnectionState out), None)),
         w'))"

definition LagState ::
  "('e \<Rightarrow> bool) \<Rightarrow> ('c, string, 'm Lag_scheme, 'e, 'w) finder \<Rightarrow> 'c \<Rightarrow> string \<Rightarrow>
   'w \<Rightarrow> ('m Lag_scheme, 'e) refresh outcome \<times> 'w" where
  "LagState nf LagByID conn id' w =
     (case LagByID conn id' w of ((output, err), w') \<Rightarrow>
        (if NotFound nf err then Return (Nil, [], None)
         else if err \<noteq> None then Return (Nil, [], err)
         else (case output of
                 None \<Rightarrow> Panic
               | Some out \<Rightarrow> Return (Ptr output, StringValue (Lag_LagState out), None)),
         w'))"

section \<open>Security Hub status probes\<close>

definition adminStatusNotFound :: string where
  "adminStatusNotFound = ''NotFound''"

definition adminStatusUnknown :: string where
  "adminStatusUnknown = ''Unknown''"

definition standardsStatusNotFound :: string where
  "standardsStatusNotFound = ''NotFound''"

record AdminAccount =
  AdminAccount_Status :: "string option"

record StandardsSubscription =
  StandardsSubscription_StandardsStatus :: "string option"

text \<open>
  \<open>statusAdminAccountAdmin\<close> does not ask \<open>tfresource.NotFound\<close>: its finder reports
  absence as a nil account with a nil error, and the probe forwards that nil pointer.
\<close>

definition statusAdminAccountAdmin ::
  "('c, string, 'm AdminAccount_scheme, 'e, 'w) finder \<Rightarrow> 'c \<Rightarrow> string \<Rightarrow>
   'w \<Rightarrow> ('m AdminAccount_scheme, 'e) refresh outcome \<times> 'w" where
  "statusAdminAccountAdmin FindAdminAccount conn adminAccountID w =
     (case FindAdminAccount conn adminAccountID w of ((adminAccount, err), w') \<Rightarrow>
        (if err \<noteq> None then Return (Nil, adminStatusUnknown, err)
         else (case adminAccount of
                 None \<Rightarrow> Return (Ptr adminAccount, adminStatusNotFound, None)
               | Some a \<Rightarrow> Return (Ptr adminAccount, StringValue (AdminAccount_Status a), None)),
         w'))"

definition statusStandardsSubscription ::
  "('e \<Rightarrow> bool) \<Rightarrow> ('c, string, 'm StandardsSubscription_scheme, 'e, 'w) finder \<Rightarrow> 'c \<Rightarrow> string \<Rightarrow>
   'w \<Rightarrow> ('m StandardsSubscription_scheme, 'e) refresh outcome \<times> 'w" where
  "statusStandardsSubscription nf FindStandardsSubscriptionByARN conn arn w =
     (case FindStandardsSubscriptionByARN conn arn w of ((output, err), w') \<Rightarrow>
        (if NotFound nf err then Return (StringVal [], standardsStatusNotFound, None)
         else if err \<noteq> None then Return (Nil, [], err)
         else (case output of
                 None \<Rightarrow> Panic
               | Some out \<Rightarrow>
                   Return (Ptr output, StringValue (StandardsSubscription_StandardsStatus out), None)),
         w'))"

section \<open>Lex model building status probes\<close>

definition lexModelBuildingServiceStatusCreated :: string where
  "lexModelBuildingServiceStatusCreated = ''CREATED''"

definition lexModelBuildingServiceStatusNotFound :: string where
  "lexModelBuildingServiceStatusNotFound = ''NOTFOUND''"

definition lexModelBuildingServiceStatusUnknown :: string where
  "lexModelBuildingServiceStatusUnknown = ''UNKNOWN''"

text \<open>The SDK's error code constant; only its identity matters to the probes.\<close>

definition ErrCodeNotFoundException :: string where
  "ErrCodeNotFoundException = ''NotFoundException''"

record BotVersionOutput =
  BotVersionOutput_Status :: "string option"

record GetSlotTypeVersionsInput =
  GetSlotTypeVersionsInput_Name :: "string option"

record 'a GetSlotTypeVersionsOutput =
  GetSlotTypeVersionsOutput_SlotTypes :: "'a list"

record GetIntentVersionsInput =
  GetIntentVersionsInput_Name :: "string option"

record 'a GetIntentVersionsOutput =
  GetIntentVersionsOutput_Intents :: "'a list"

record GetBotAliasInput =
  GetBotAliasInput_BotName :: "string option"
  GetBotAliasInput_Name :: "string option"

definition statusBotVersion ::
  "('e \<Rightarrow> bool) \<Rightarrow> ('c, string \<times> string, 'm BotVersionOutput_scheme, 'e, 'w) finder \<Rightarrow> 'c \<Rightarrow>
   string \<Rightarrow> string \<Rightarrow> 'w \<Rightarrow> ('m BotVersionOutput_scheme, 'e) refresh outcome \<times> 'w" where
  "statusBotVersion nf FindBotVersionByName conn name version w =
     (case FindBotVersionByName conn (name, version) w of ((output, err), w') \<Rightarrow>
        (if NotFound nf err then Return (Nil, [], None)
         else if err \<noteq> None then Return (Nil, [], err)
         else (case output of
                 None \<Rightarrow> Panic
               | Some out \<Rightarrow> Return (Ptr output, StringValue (BotVersionOutput_Status out), None)),
         w'))"

definition statusLexSlotType ::
  "('e \<Rightarrow> string \<Rightarrow> bool) \<Rightarrow>
   ('c, GetSlotTypeVersionsInput, ('a, 'm) GetSlotTypeVersionsOutput_scheme, 'e, 'w) finder \<Rightarrow>
   'c \<Rightarrow> string \<Rightarrow> 'w \<Rightarrow> (('a, 'm) GetSlotTypeVersionsOutput_scheme, 'e) refresh outcome \<times> 'w" where
  "statusLexSlotType ec GetSlotTypeVersions conn id' w =
     (case GetSlotTypeVersions conn \<lparr>GetSlotTypeVersionsInput_Name = Some id'\<rparr> w of
        ((output, err), w') \<Rightarrow>
        (if ErrCodeEquals ec err ErrCodeNotFoundException
           then Return (Nil, lexModelBuildingServiceStatusNotFound, None)
         else if err \<noteq> None then Return (Nil, lexModelBuildingServiceStatusUnknown, err)
         else (case output of
                 None \<Rightarrow> Return (Nil, lexModelBuildingServiceStatusNotFound, None)
               | Some out \<Rightarrow>
                   if length (GetSlotTypeVersionsOutput_SlotTypes out) = 0
                     then Return (Nil, lexModelBuildingServiceStatusNotFound, None)
                   else Return (Ptr output, lexModelBuildingServiceStatusCreated, None)),
         w'))"

definition statusLexIntent ::
  "('e \<Rightarrow> string \<Rightarrow> bool) \<Rightarrow>
   ('c, GetIntentVersionsInput, ('a, 'm) GetIntentVersionsOutput_scheme, 'e, 'w) finder \<Rightarrow>
   'c \<Rightarrow> string \<Rightarrow> 'w \<Rightarrow> (('a, 'm) GetIntentVersionsOutput_scheme, 'e) refresh outcome \<times> 'w" where
  "statusLexIntent ec GetIntentVersions conn id' w =
     (case GetIntentVersions conn \<lparr>GetIntentVersionsInput_Name = Some id'\<rparr> w of
        ((output, err), w') \<Rightarrow>
        (if ErrCodeEquals ec err ErrCodeNotFoundException
           then Return (Nil, lexModelBuildingServiceStatusNotFound, None)
         else if err \<noteq> None then Return (Nil, lexModelBuildingServiceStatusUnknown, err)
         else (case output of
                 None \<Rightarrow> Return (Nil, lexModelBuildingServiceStatusNotFound, None)
               | Some out \<Rightarrow>
                   if length (GetIntentVersionsOutput_Intents out) = 0
                     then Return (Nil, lexModelBuildingServiceStatusNotFound, None)
                   else Return (Ptr output, lexModelBuildingServiceStatusCreated, None)),
         w'))"

definition statusLexBotAlias ::
  "('e \<Rightarrow> string \<Rightarrow> bool) \<Rightarrow> ('c, GetBotAliasInput, 'o, 'e, 'w) finder \<Rightarrow>
   'c \<Rightarrow> string \<Rightarrow> string \<Rightarrow> 'w \<Rightarrow> ('o, 'e) refresh outcome \<times> 'w" where
  "statusLexBotAlias ec GetBotAlias conn botAliasName botName w =
     (case GetBotAlias conn
             \<lparr>GetBotAliasInput_BotName = Some botName, GetBotAliasInput_Name = Some botAliasName\<rparr> w of
        ((output, err), w') \<Rightarrow>
        (if ErrCodeEquals ec err ErrCodeNotFoundException
           then Return (Nil, lexModelBuildingServiceStatusNotFound, None)
         else if err \<noteq> None then Return (Nil, lexModelBuildingServiceStatusUnknown, err)
         else (case output of
                 None \<Rightarrow> Return (Nil, lexModelBuildingServiceStatusNotFound, None)
               | Some out \<Rightarrow> Return (Ptr output, lexModelBuildingServiceStatusCreated, None)),
         w'))"

section \<open>ECS capacity provider pagination\<close>

record DescribeCapacityProvidersInput =
  DescribeCapacityProvidersInput_NextToken :: "string option"

record DescribeCapacityProvidersOutput =
  DescribeCapacityProvidersOutput_NextToken :: "string option"

text \<open>
  The loop of \<open>DescribeCapacityProvidersPagesWithContext\<close>. The SDK call
  \<open>conn.DescribeCapacityProvidersWithContext\<close> is the parameter \<open>call\<close>; the callback \<open>fn\<close>
  may have effects of its own, so it also takes and returns the world. The request is
  passed by pointer and the loop writes the next token into it, so the request as the
  caller sees it afterwards is part of the result. The loop has no bound: a service that
  never sends an empty token and a callback that never says stop keep it running, and
  the model then has no value (\<open>None\<close>).
\<close>

partial_function (option) DescribeCapacityProvidersPagesWithContext ::
  "('x \<Rightarrow> ('c, 'i DescribeCapacityProvidersInput_scheme,
           'm DescribeCapacityProvidersOutput_scheme, 'e, 'w) finder) \<Rightarrow>
   'x \<Rightarrow> 'c \<Rightarrow> 'i DescribeCapacityProvidersInput_scheme \<Rightarrow>
   ('m DescribeCapacityProvidersOutput_scheme option \<Rightarrow> bool \<Rightarrow> 'w \<Rightarrow> bool \<times> 'w) \<Rightarrow> 'w \<Rightarrow>
   ('e option outcome \<times> 'i DescribeCapacityProvidersInput_scheme \<times> 'w) option" where
  "DescribeCapacityProvidersPagesWithContext call ctx conn input fn w =
     (case call ctx conn input w of ((output, err), w1) \<Rightarrow>
        if err \<noteq> None then Some (Return err, input, w1)
        else (case output of
                None \<Rightarrow> Some (Panic, input, w1)
              | Some out \<Rightarrow>
                  (let lastPage = (StringValue (DescribeCapacityProvidersOutput_NextToken out) = [])
                   in (case fn output lastPage w1 of (continue, w2) \<Rightarrow>
                         if \<not> continue \<or> lastPage then Some (Return None, input, w2)
                         else DescribeCapacityProvidersPagesWithContext call ctx conn
                                (input\<lparr>DescribeCapacityProvidersInput_NextToken :=
                                          DescribeCapacityProvidersOutput_NextToken out\<rparr>) fn w2))))"

text \<open>\<open>context.Background()\<close> is the parameter \<open>background\<close>.\<close>

definition DescribeCapacityProvidersPages ::
  "'x \<Rightarrow> ('x \<Rightarrow> ('c, 'i DescribeCapacityProvidersInput_scheme,
           'm DescribeCapacityProvidersOutput_scheme, 'e, 'w) finder) \<Rightarrow>
   'c \<Rightarrow> 'i DescribeCapacityProvidersInput_scheme \<Rightarrow>
   ('m DescribeCapacityProvidersOutput_scheme option \<Rightarrow> bool \<Rightarrow> 'w \<Rightarrow> bool \<times> 'w) \<Rightarrow> 'w \<Rightarrow>
   ('e option outcome \<times> 'i DescribeCapacityProvidersInput_scheme \<times> 'w) option" where
  "DescribeCapacityProvidersPages background call conn input fn w =
     DescribeCapacityProvidersPagesWithContext call background conn input fn w"

text \<open>
  To speak about the sequence of callback invocations, the world is paired with a log.
  \<open>logged fn\<close> behaves as \<open>fn\<close> and appends the page, the \<open>lastPage\<close> flag it was given and
  its answer; \<open>unlogged call\<close> is the SDK call, which leaves the log alone.
\<close>

type_synonym 'p invocation = "'p option \<times> bool \<times> bool"

definition logged ::
  "('p option \<Rightarrow> bool \<Rightarrow> 'w \<Rightarrow> bool \<times> 'w) \<Rightarrow>
   'p option \<Rightarrow> bool \<Rightarrow> 'w \<times> 'p invocation list \<Rightarrow> bool \<times> 'w \<times> 'p invocation list" where
  "logged fn page lastPage = (\<lambda>(w, log).
     case fn page lastPage w of (continue, w') \<Rightarrow> (continue, w', log @ [(page, lastPage, continue)]))"

definition unlogged ::
  "('x \<Rightarrow> ('c, 'k, 'o, 'e, 'w) finder) \<Rightarrow> 'x \<Rightarrow> ('c, 'k, 'o, 'e, 'w \<times> 'l) finder" where
  "unlogged call ctx conn input = (\<lambda>(w, log).
     case call ctx conn input w of (r, w') \<Rightarrow> (r, w', log))"

text \<open>What the loop promises about one logged invocation.\<close>

definition flag_matches_token :: "'m DescribeCapacityProvidersOutput_scheme invocation \<Rightarrow> bool" where
  "flag_matches_token entry = (case entry of (page, lastPage, continue) \<Rightarrow>
     (case page of
        None \<Rightarrow> False
      | Some out \<Rightarrow> lastPage = (StringValue (DescribeCapacityProvidersOutput_NextToken out) = [])))"

definition went_on :: "'p invocation \<Rightarrow> bool" where
  "went_on entry = (case entry of (page, lastPage, continue) \<Rightarrow> continue \<and> \<not> lastPage)"

section \<open>SES configuration set\<close>

text \<open>The SDK's error code constant; only its identity matters to the model.\<close>

definition ErrCodeConfigurationSetDoesNotExistException :: string where
  "ErrCodeConfigurationSetDoesNotExistException = ''ConfigurationSetDoesNotExist''"

record ResourceData =
  ResourceData_Id :: string

record 'c AWSClient =
  sesconn :: 'c

record DeleteConfigurationSetInput =
  ConfigurationSetName :: "string option"

text \<open>
  \<open>fmt.Errorf\<close> with a \<open>%w\<close> verb: the text in front of the wrapped error, and the
  wrapped error.
\<close>

datatype 'e wrapped = Errorf string 'e

text \<open>
  \<open>resourceAwsSesConfigurationSetDelete\<close>. The helper \<open>isAWSErr\<close> is not among the sources
  and is the parameter \<open>isAWSErr\<close>, asked about a non-nil error; the SDK operation
  \<open>conn.DeleteConfigurationSet\<close> is the parameter \<open>DeleteConfigurationSet\<close>. The debug
  log line has no effect on the result and is left out.
\<close>

definition resourceAwsSesConfigurationSetDelete ::
  "('e \<Rightarrow> string \<Rightarrow> string \<Rightarrow> bool) \<Rightarrow> ('c, DeleteConfigurationSetInput, 'o, 'e, 'w) finder \<Rightarrow>
   'r ResourceData_scheme \<Rightarrow> ('c, 'a) AWSClient_scheme \<Rightarrow> 'w \<Rightarrow> 'e wrapped option \<times> 'w" where
  "resourceAwsSesConfigurationSetDelete isAWSErr DeleteConfigurationSet d meta w =
     (let conn = sesconn meta;
          input = \<lparr>ConfigurationSetName = Some (ResourceData_Id d)\<rparr>
      in (case DeleteConfigurationSet conn input w of ((out, err), w') \<Rightarrow>
            (case err of
               None \<Rightarrow> (None, w')
             | Some e \<Rightarrow>
                 if \<not> isAWSErr e ErrCodeConfigurationSetDoesNotExistException []
                   then (Some (Errorf (''error deleting SES Configuration Set ('' @ ResourceData_Id d @ ''): '') e), w')
                 else (None, w'))))"

text \<open>
  The values an \<open>interface{}\<close> of the schema layer holds. A Go map is a partial function
  on its keys; reading a missing key gives the nil interface.
\<close>

datatype tf_value =
    VNil
  | VString string
  | VBool bool
  | VInt int
  | VList "tf_value list"
  | VMap "string \<Rightarrow> tf_value option"

record DeliveryOptions =
  TlsPolicy :: "string option"

text \<open>A nil result (a nil pointer, a nil slice) is \<open>None\<close>.\<close>

definition expandSesConfigurationSetDeliveryOptions :: "tf_value list \<Rightarrow> DeliveryOptions option" where
  "expandSesConfigurationSetDeliveryOptions l =
     (if length l = 0 \<or> l ! 0 = VNil then None
      else (case l ! 0 of
              VMap tfMap \<Rightarrow>
                (let options = \<lparr>TlsPolicy = None\<rparr>
                 in (case tfMap ''tls_policy'' of
                       Some (VString v) \<Rightarrow>
                         if v \<noteq> [] then Some (options\<lparr>TlsPolicy := Some v\<rparr>) else Some options
                     | _ \<Rightarrow> Some options))
            | _ \<Rightarrow> None))"

definition flattenSesConfigurationSetDeliveryOptions :: "DeliveryOptions option \<Rightarrow> tf_value list option" where
  "flattenSesConfigurationSetDeliveryOptions options =
     (case options of
        None \<Rightarrow> None
      | Some opts \<Rightarrow>
          (let m = [''tls_policy'' \<mapsto> VString (StringValue (TlsPolicy opts))]
           in Some [VMap m]))"

section \<open>The convergence waiter\<close>

text \<open>
  Modelled from the spec: the waiter (\<open>Wait\<close>, its Transition Table and Wait
  Configuration) is not among the sources, which hold only status probes. The
  definitions below follow the specification's data model, its call contract and the
  eight steps of its algorithm.

  Time is counted in the units of the configuration. The optional backoff growth is
  left out, so tick \<open>n\<close> happens \<open>initialDelay + n * pollInterval\<close> after the start. The
  cancellation signal is a predicate on the elapsed time: whether it has fired by then.
  A Status Probe is given by the sequence of its results, probe \<open>n\<close> being the result of
  the invocation at tick \<open>n\<close>; the snapshot \<open>None\<close> is the absent entity.
\<close>

type_synonym ('o, 'e) observation = "'o option \<times> string \<times> 'e option"

text \<open>
  Modelled from the spec: the Transition Table of the data model, which is not among
  the sources. Statuses are compared for equality only. The sets are meant to be
  disjoint, but nothing keeps an adapter from listing a status twice.
\<close>

record TransitionTable =
  pending :: "string set"
  target :: "string set"
  failure :: "string set"

text \<open>
  Modelled from the spec: the \<open>config\<close> fields of the call contract, which is not among
  the sources.
\<close>

record WaitConfiguration =
  initialDelay :: nat
  pollInterval :: nat
  timeout :: nat
  unknownStatusTolerance :: nat
  cancellationSignal :: "nat \<Rightarrow> bool"

text \<open>
  Modelled from the spec: the errors that the call contract lists for \<open>Wait\<close>, which
  is not among the sources.
\<close>

datatype ('o, 'e) wait_error =
    TargetNotReached string "'o option"
  | Timeout string "'o option" nat
  | Cancelled string
  | ProbeError 'e
  | UnexpectedStatus string nat

text \<open>
  Modelled from the spec: how the waiter, which is not among the sources, reads a
  status against the Transition Table. The order is that of the tie-break policy,
  "failure takes precedence over target, which takes precedence over pending"; a status
  in none of the sets is Unknown.
\<close>

datatype classification = Failure | Target | Pending | Unknown

definition classify :: "TransitionTable \<Rightarrow> string \<Rightarrow> classification" where
  "classify tbl status =
     (if status \<in> failure tbl then Failure
      else if status \<in> target tbl then Target
      else if status \<in> pending tbl then Pending
      else Unknown)"

text \<open>
  Modelled from the spec: the time at which the waiter, which is not among the sources,
  makes its \<open>n\<close>-th probe, after the initial delay and \<open>n\<close> poll intervals.
\<close>

definition elapsedAt :: "WaitConfiguration \<Rightarrow> nat \<Rightarrow> nat" where
  "elapsedAt config n = initialDelay config + n * pollInterval config"

text \<open>
  Modelled from the spec: the polling loop of the waiter, which is not among the
  sources. At tick \<open>n\<close>: a fired cancellation signal ends the wait (step 8); so does an
  elapsed time beyond the timeout (step 7); otherwise the probe is invoked (step 1), its
  error ends the wait (step 2), a failure status ends it with an error and a target
  status with the snapshot (steps 3 and 4, in the order of the tie-break policy), a
  pending status or an absent snapshot continues (step 5; the call contract has no
  input that says when an entity is no longer expected to exist), and an Unknown status
  continues while the number of consecutive Unknown observations stays within the
  tolerance (step 6). The loop carries the number of consecutive Unknown observations
  and the last status and snapshot seen. With a poll interval of 0 and a probe that
  stays pending the loop never ends, and the model has no value (\<open>None\<close>).
\<close>

partial_function (option) poll ::
  "WaitConfiguration \<Rightarrow> (nat \<Rightarrow> ('o, 'e) observation) \<Rightarrow> TransitionTable \<Rightarrow>
   nat \<Rightarrow> nat \<Rightarrow> string \<Rightarrow> 'o option \<Rightarrow> (('o, 'e) wait_error + 'o option) option" where
  "poll config probe tbl n unknowns lastStatus lastSnapshot =
     (if cancellationSignal config (elapsedAt config n) then Some (Inl (Cancelled lastStatus))
      else if timeout config < elapsedAt config n
        then Some (Inl (Timeout lastStatus lastSnapshot (elapsedAt config n)))
      else (case probe n of (snapshot, status, err) \<Rightarrow>
        (case err of
           Some e \<Rightarrow> Some (Inl (ProbeError e))
         | None \<Rightarrow>
            (case classify tbl status of
               Failure \<Rightarrow> Some (Inl (TargetNotReached status snapshot))
             | Target \<Rightarrow> Some (Inr snapshot)
             | Pending \<Rightarrow> poll config probe tbl (Suc n) 0 status snapshot
             | Unknown \<Rightarrow>
                 if snapshot = None then poll config probe tbl (Suc n) 0 status snapshot
                 else if unknownStatusTolerance config < Suc unknowns
                   then Some (Inl (UnexpectedStatus status (Suc unknowns)))
                 else poll config probe tbl (Suc n) (Suc unknowns) status snapshot))))"

text \<open>
  Modelled from the spec: the entry point \<open>Wait(config, probe, transitionTable)\<close> of the
  call contract, which is not among the sources. The wait starts at tick 0 with no
  Unknown observation, the empty status and no snapshot seen.
\<close>

definition Wait ::
  "WaitConfiguration \<Rightarrow> (nat \<Rightarrow> ('o, 'e) observation) \<Rightarrow> TransitionTable \<Rightarrow>
   (('o, 'e) wait_error + 'o option) option" where
  "Wait config probe tbl = poll config probe tbl 0 0 [] None"

text \<open>
  Modelled from the spec: the count of step 6 of the waiter, which is not among the
  sources, as a function of the probe alone. It is the number of observations right
  before tick \<open>n\<close> that came one after the other with an Unknown status and a snapshot;
  a pending status or an absent snapshot starts the count again.
\<close>

fun unknownsBefore :: "(nat \<Rightarrow> ('o, 'e) observation) \<Rightarrow> TransitionTable \<Rightarrow> nat \<Rightarrow> nat" where
  "unknownsBefore probe tbl 0 = 0"
| "unknownsBefore probe tbl (Suc n) =
     (case probe n of (snapshot, status, err) \<Rightarrow>
        if classify tbl status = Unknown \<and> snapshot \<noteq> None
          then Suc (unknownsBefore probe tbl n)
        else 0)"

section \<open>Sample inputs\<close>

text \<open>Small concrete services, classifiers, probes and tables, used to run the definitions.\<close>

definition fetch_gives :: "'o option \<Rightarrow> string option \<Rightarrow> (unit, 'k, 'o, string, nat) finder" where
  "fetch_gives out err conn key w = ((out, err), Suc w)"

definition sample_nf :: "string \<Rightarrow> bool" where
  "sample_nf e = (e = ''not found'')"

definition sample_ec :: "string \<Rightarrow> string \<Rightarrow> bool" where
  "sample_ec e code = (e = code)"

definition sample_isAWSErr :: "string \<Rightarrow> string \<Rightarrow> string \<Rightarrow> bool" where
  "sample_isAWSErr e code message = (e = code)"

text \<open>A service with two pages: the first carries the token \<open>t1\<close>, the second none.\<close>

definition two_pages ::
  "unit \<Rightarrow> (unit, DescribeCapacityProvidersInput, DescribeCapacityProvidersOutput, string, nat) finder" where
  "two_pages ctx conn input w =
     (if DescribeCapacityProvidersInput_NextToken input = None
        then ((Some \<lparr>DescribeCapacityProvidersOutput_NextToken = Some ''t1''\<rparr>, None), Suc w)
      else ((Some \<lparr>DescribeCapacityProvidersOutput_NextToken = None\<rparr>, None), Suc w))"

text \<open>A service that answers every request with the error \<open>throttled\<close>.\<close>

definition throttled_pages ::
  "unit \<Rightarrow> (unit, DescribeCapacityProvidersInput, DescribeCapacityProvidersOutput, string, nat) finder" where
  "throttled_pages ctx conn input w = ((None, Some ''throttled''), Suc w)"

definition keep_going ::
  "DescribeCapacityProvidersOutput option \<Rightarrow> bool \<Rightarrow> nat \<Rightarrow> bool \<times> nat" where
  "keep_going page lastPage w = (True, w)"

definition sequence_probe ::
  "('o, 'e) observation list \<Rightarrow> ('o, 'e) observation \<Rightarrow> nat \<Rightarrow> ('o, 'e) observation" where
  "sequence_probe xs rest n = (if n < length xs then xs ! n else rest)"

definition never :: "nat \<Rightarrow> bool" where
  "never t = False"

definition sample_config :: WaitConfiguration where
  "sample_config = \<lparr>initialDelay = 0, pollInterval = 100, timeout = 300,
                     unknownStatusTolerance = 0, cancellationSignal = never\<rparr>"

definition tolerant_config :: WaitConfiguration where
  "tolerant_config = \<lparr>initialDelay = 0, pollInterval = 100, timeout = 300,
                       unknownStatusTolerance = 1, cancellationSignal = never\<rparr>"

definition fires_from :: "nat \<Rightarrow> nat \<Rightarrow> bool" where
  "fires_from t0 t = (t0 \<le> t)"

definition cancelled_config :: WaitConfiguration where
  "cancelled_config = \<lparr>initialDelay = 0, pollInterval = 100, timeout = 300,
                        unknownStatusTolerance = 0, cancellationSignal = fires_from 100\<rparr>"

definition sample_table :: TransitionTable where
  "sample_table = \<lparr>pending = {''PENDING''}, target = {''AVAILABLE''}, failure = {''FAILED''}\<rparr>"

definition misconfigured_table :: TransitionTable where
  "misconfigured_table = \<lparr>pending = {''PENDING''}, target = {''AVAILABLE'', ''FAILED''},
                            failure = {''FAILED''}\<rparr>"

section \<open>Properties of the status probes\<close>

lemmas probe_defs =
  ConnectionState_def GatewayState_def GatewayAssociationState_def HostedConnectionState_def
  LagState_def statusAdminAccountAdmin_def statusStandardsSubscription_def statusBotVersion_def
  statusLexSlotType_def statusLexIntent_def statusLexBotAlias_def

lemmas sample_defs = fetch_gives_def sample_nf_def sample_ec_def ErrCodeNotFoundException_def




text \<open>
  Claim C3: whenever the underlying fetch fails with an error that is not a not-found
  error, every status probe returns exactly that error, unchanged (with a nil snapshot,
  and the status \<open>""\<close>, \<open>"Unknown"\<close> or \<open>"UNKNOWN"\<close>). \<open>statusAdminAccountAdmin\<close>
  does so for every error.
\<close>

theorem probes_return_fetch_error:
  "(ConnectionByID conn i w = ((outA, Some e), w') \<and> \<not> nf e \<longrightarrow>
      ConnectionState nf ConnectionByID conn i w = (Return (Nil, [], Some e), w')) \<and>
   (GatewayByID conn i w = ((outB, Some e), w') \<and> \<not> nf e \<longrightarrow>
      GatewayState nf GatewayByID conn i w = (Return (Nil, [], Some e), w')) \<and>
   (GatewayAssociationByID conn i w = ((outC, Some e), w') \<and> \<not> nf e \<longrightarrow>
      GatewayAssociationState nf GatewayAssociationByID conn i w = (Return (Nil, [], Some e), w')) \<and>
   (HostedConnectionByID conn i w = ((outD, Some e), w') \<and> \<not> nf e \<longrightarrow>
      HostedConnectionState nf HostedConnectionByID conn i w = (Return (Nil, [], Some e), w')) \<and>
   (LagByID conn i w = ((outE, Some e), w') \<and> \<not> nf e \<longrightarrow>
      LagState nf LagByID conn i w = (Return (Nil, [], Some e), w')) \<and>
   (FindAdminAccount conn i w = ((outF, Some e), w') \<longrightarrow>
      statusAdminAccountAdmin FindAdminAccount conn i w = (Return (Nil, adminStatusUnknown, Some e), w')) \<and>
   (FindStandardsSubscriptionByARN conn i w = ((outG, Some e), w') \<and> \<not> nf e \<longrightarrow>
      statusStandardsSubscription nf FindStandardsSubscriptionByARN conn i w = (Return (Nil, [], Some e), w')) \<and>
   (FindBotVersionByName conn (i, v) w = ((outH, Some e), w') \<and> \<not> nf e \<longrightarrow>
      statusBotVersion nf FindBotVersionByName conn i v w = (Return (Nil, [], Some e), w')) \<and>
   (GetSlotTypeVersions conn \<lparr>GetSlotTypeVersionsInput_Name = Some i\<rparr> w = ((outI, Some e), w') \<and> \<not> ec e ErrCodeNotFoundException \<longrightarrow>
      statusLexSlotType ec GetSlotTypeVersions conn i w = (Return (Nil, lexModelBuildingServiceStatusUnknown, Some e), w')) \<and>
   (GetIntentVersions conn \<lparr>GetIntentVersionsInput_Name = Some i\<rparr> w = ((outJ, Some e), w') \<and> \<not> ec e ErrCodeNotFoundException \<longrightarrow>
      statusLexIntent ec GetIntentVersions conn i w = (Return (Nil, lexModelBuildingServiceStatusUnknown, Some e), w')) \<and>
   (GetBotAlias conn \<lparr>GetBotAliasInput_BotName = Some b, GetBotAliasInput_Name = Some i\<rparr> w = ((outK, Some e), w') \<and> \<not> ec e ErrCodeNotFoundException \<longrightarrow>
      statusLexBotAlias ec GetBotAlias conn i b w = (Return (Nil, lexModelBuildingServiceStatusUnknown, Some e), w'))"
  by (simp add: probe_defs NotFound_def ErrCodeEquals_def)

text \<open>
  Claim C3 at a service that answers every request with the error \<open>throttled\<close>.
\<close>

theorem probes_return_fetch_error_witness:
  "ConnectionState sample_nf (fetch_gives (None :: Connection option) (Some ''throttled'')) () ''dx-1'' 0 =
     (Return (Nil, [], Some ''throttled''), 1) \<and>
   GatewayState sample_nf (fetch_gives (None :: Gateway option) (Some ''throttled'')) () ''dx-1'' 0 =
     (Return (Nil, [], Some ''throttled''), 1) \<and>
   GatewayAssociationState sample_nf (fetch_gives (None :: GatewayAssociation option) (Some ''throttled'')) () ''dx-1'' 0 =
     (Return (Nil, [], Some ''throttled''), 1) \<and>
   HostedConnectionState sample_nf (fetch_gives (None :: Connection option) (Some ''throttled'')) () ''dx-1'' 0 =
     (Return (Nil, [], Some ''throttled''), 1) \<and>
   LagState sample_nf (fetch_gives (None :: Lag option) (Some ''throttled'')) () ''dx-1'' 0 =
     (Return (Nil, [], Some ''throttled''), 1) \<and>
   statusAdminAccountAdmin (fetch_gives (None :: AdminAccount option) (Some ''throttled'')) () ''dx-1'' 0 =
     (Return (Nil, adminStatusUnknown, Some ''throttled''), 1) \<and>
   statusStandardsSubscription sample_nf (fetch_gives (None :: StandardsSubscription option) (Some ''throttled'')) () ''dx-1'' 0 =
     (Return (Nil, [], Some ''throttled''), 1) \<and>
   statusBotVersion sample_nf (fetch_gives (None :: BotVersionOutput option) (Some ''throttled'')) () ''dx-1'' ''1'' 0 =
     (Return (Nil, [], Some ''throttled''), 1) \<and>
   statusLexSlotType sample_ec (fetch_gives (None :: unit GetSlotTypeVersionsOutput option) (Some ''throttled'')) () ''dx-1'' 0 =
     (Return (Nil, lexModelBuildingServiceStatusUnknown, Some ''throttled''), 1) \<and>
   statusLexIntent sample_ec (fetch_gives (None :: unit GetIntentVersionsOutput option) (Some ''throttled'')) () ''dx-1'' 0 =
     (Return (Nil, lexModelBuildingServiceStatusUnknown, Some ''throttled''), 1) \<and>
   statusLexBotAlias sample_ec (fetch_gives (None :: unit option) (Some ''throttled'')) () ''dx-1'' ''bot'' 0 =
     (Return (Nil, lexModelBuildingServiceStatusUnknown, Some ''throttled''), 1)"
  using probes_return_fetch_error [where nf = sample_nf and ec = sample_ec and conn = "()" and i = "''dx-1''" and v = "''1''" and b = "''bot''" and
      w = "0::nat" and w' = "1::nat" and e = "''throttled''" and
      ConnectionByID = "fetch_gives (None :: Connection option) (Some ''throttled'')" and
      GatewayByID = "fetch_gives (None :: Gateway option) (Some ''throttled'')" and
      GatewayAssociationByID = "fetch_gives (None :: GatewayAssociation option) (Some ''throttled'')" and
      HostedConnectionByID = "fetch_gives (None :: Connection option) (Some ''throttled'')" and
      LagByID = "fetch_gives (None :: Lag option) (Some ''throttled'')" and
      FindAdminAccount = "fetch_gives (None :: AdminAccount option) (Some ''throttled'')" and
      FindStandardsSubscriptionByARN = "fetch_gives (None :: StandardsSubscription option) (Some ''throttled'')" and
      FindBotVersionByName = "fetch_gives (None :: BotVersionOutput option) (Some ''throttled'')" and
      GetSlotTypeVersions = "fetch_gives (None :: unit GetSlotTypeVersionsOutput option) (Some ''throttled'')" and
      GetIntentVersions = "fetch_gives (None :: unit GetIntentVersionsOutput option) (Some ''throttled'')" and
      GetBotAlias = "fetch_gives (None :: unit option) (Some ''throttled'')"]
  by (simp add: sample_defs)

text \<open>
  Claim C5: when the finder returns an entity and no error, each Direct Connect probe
  (\<open>ConnectionState\<close>, \<open>GatewayState\<close>, \<open>GatewayAssociationState\<close>,
  \<open>HostedConnectionState\<close>, \<open>LagState\<close>) returns that very entity as the snapshot, the
  string value of its state field as the status, and a nil error.
\<close>

theorem directconnect_probes_forward_entity:
  "(ConnectionByID conn i w = ((Some ea, None), w') \<longrightarrow>
      ConnectionState nf ConnectionByID conn i w = (Return (Ptr (Some ea), StringValue (Connection_ConnectionState ea), None), w')) \<and>
   (GatewayByID conn i w = ((Some eb, None), w') \<longrightarrow>
      GatewayState nf GatewayByID conn i w = (Return (Ptr (Some eb), StringValue (Gateway_DirectConnectGatewayState eb), None), w')) \<and>
   (GatewayAssociationByID conn i w = ((Some ec, None), w') \<longrightarrow>
      GatewayAssociationState nf GatewayAssociationByID conn i w = (Return (Ptr (Some ec), StringValue (GatewayAssociation_AssociationState ec), None), w')) \<and>
   (HostedConnectionByID conn i w = ((Some ed, None), w') \<longrightarrow>
      HostedConnectionState nf HostedConnectionByID conn i w = (Return (Ptr (Some ed), StringValue (Connection_ConnectionState ed), None), w')) \<and>
   (LagByID conn i w = ((Some ee, None), w') \<longrightarrow>
      LagState nf LagByID conn i w = (Return (Ptr (Some ee), StringValue (Lag_LagState ee), None), w'))"
  by (simp add: probe_defs NotFound_def)

text \<open>
  Claim C5 at finders that return one entity each.
\<close>

theorem directconnect_probes_forward_entity_witness:
  "ConnectionState sample_nf (fetch_gives (Some \<lparr>Connection_ConnectionState = Some ''available''\<rparr>) None) () ''dx-1'' 0 =
     (Return (Ptr (Some \<lparr>Connection_ConnectionState = Some ''available''\<rparr>), ''available'', None), 1) \<and>
   GatewayState sample_nf (fetch_gives (Some \<lparr>Gateway_DirectConnectGatewayState = Some ''available''\<rparr>) None) () ''dx-1'' 0 =
     (Return (Ptr (Some \<lparr>Gateway_DirectConnectGatewayState = Some ''available''\<rparr>), ''available'', None), 1) \<and>
   GatewayAssociationState sample_nf (fetch_gives (Some \<lparr>GatewayAssociation_AssociationState = Some ''associated''\<rparr>) None) () ''dx-1'' 0 =
     (Return (Ptr (Some \<lparr>GatewayAssociation_AssociationState = Some ''associated''\<rparr>), ''associated'', None), 1) \<and>
   HostedConnectionState sample_nf (fetch_gives (Some \<lparr>Connection_ConnectionState = Some ''ordering''\<rparr>) None) () ''dx-1'' 0 =
     (Return (Ptr (Some \<lparr>Connection_ConnectionState = Some ''ordering''\<rparr>), ''ordering'', None), 1) \<and>
   LagState sample_nf (fetch_gives (Some \<lparr>Lag_LagState = Some ''down''\<rparr>) None) () ''dx-1'' 0 =
     (Return (Ptr (Some \<lparr>Lag_LagState = Some ''down''\<rparr>), ''down'', None), 1)"
  using directconnect_probes_forward_entity [where nf = sample_nf and conn = "()" and i = "''dx-1''" and
      w = "0::nat" and w' = "1::nat" and
      ConnectionByID = "fetch_gives (Some \<lparr>Connection_ConnectionState = Some ''available''\<rparr>) None" and ea = "\<lparr>Connection_ConnectionState = Some ''available''\<rparr>" and
      GatewayByID = "fetch_gives (Some \<lparr>Gateway_DirectConnectGatewayState = Some ''available''\<rparr>) None" and eb = "\<lparr>Gateway_DirectConnectGatewayState = Some ''available''\<rparr>" and
      GatewayAssociationByID = "fetch_gives (Some \<lparr>GatewayAssociation_AssociationState = Some ''associated''\<rparr>) None" and ec = "\<lparr>GatewayAssociation_AssociationState = Some ''associated''\<rparr>" and
      HostedConnectionByID = "fetch_gives (Some \<lparr>Connection_ConnectionState = Some ''ordering''\<rparr>) None" and ed = "\<lparr>Connection_ConnectionState = Some ''ordering''\<rparr>" and
      LagByID = "fetch_gives (Some \<lparr>Lag_LagState = Some ''down''\<rparr>) None" and ee = "\<lparr>Lag_LagState = Some ''down''\<rparr>"]
  by (simp add: sample_defs StringValue_def)

section \<open>Properties of the capacity provider pagination\<close>

lemma pages_log_invariant:
  assumes run: "DescribeCapacityProvidersPagesWithContext c ctx conn input f ww = Some y"
  shows "c = unlogged call \<Longrightarrow> f = logged fn \<Longrightarrow>
         \<forall>entry\<in>set (snd ww). flag_matches_token entry \<and> went_on entry \<Longrightarrow>
         (case y of (r, input', w', log) \<Rightarrow>
            (\<forall>entry\<in>set log. flag_matches_token entry) \<and>
            (\<forall>entry\<in>set (butlast log). went_on entry) \<and>
            (r = Return None \<longrightarrow> log \<noteq> [] \<and> \<not> went_on (last log)) \<and>
            (r \<noteq> Return None \<longrightarrow> (\<forall>entry\<in>set log. went_on entry)))"
  using run
proof (induction rule: DescribeCapacityProvidersPagesWithContext.raw_induct[rotated 1, consumes 1])
  case (1 loop c ctx conn input f ww y)
  obtain w log0 where ww: "ww = (w, log0)" by (cases ww)
  obtain page err w1 where call: "call ctx conn input w = ((page, err), w1)"
    by (metis surj_pair)
  show ?case
  proof (cases "err \<noteq> None")
    case True
    then show ?thesis
      using "1.prems" "1.hyps" ww call
      by (auto simp: unlogged_def dest: in_set_butlastD)
  next
    case noerr: False
    show ?thesis
    proof (cases page)
      case None
      then show ?thesis
        using "1.prems" "1.hyps" ww call noerr
        by (auto simp: unlogged_def dest: in_set_butlastD)
    next
      case (Some out)
      let ?last = "StringValue (DescribeCapacityProvidersOutput_NextToken out) = []"
      obtain continue w2 where fn: "fn (Some out) ?last w1 = (continue, w2)"
        by (metis surj_pair)
      let ?log1 = "log0 @ [(Some out, ?last, continue)]"
      show ?thesis
      proof (cases "\<not> continue \<or> ?last")
        case True
        then have "y = (Return None, input, w2, ?log1)"
          using "1.prems" "1.hyps" ww call noerr Some fn
          by (auto simp: unlogged_def logged_def)
        then show ?thesis
          using "1.prems" True
          by (auto simp: ww flag_matches_token_def went_on_def)
      next
        case False
        then have rec: "loop c ctx conn
              (input\<lparr>DescribeCapacityProvidersInput_NextToken := DescribeCapacityProvidersOutput_NextToken out\<rparr>)
              f (w2, ?log1) = Some y"
          using "1.prems" "1.hyps" ww call noerr Some fn
          by (auto simp: unlogged_def logged_def)
        have "\<forall>entry\<in>set (snd (w2, ?log1)). flag_matches_token entry \<and> went_on entry"
          using "1.prems" False by (auto simp: ww flag_matches_token_def went_on_def)
        then show ?thesis
          using "1.IH"[OF rec "1.prems"(1) "1.prems"(2)] by blast
      qed
    qed
  qed
qed

text \<open>
  Claim C8: \<open>DescribeCapacityProvidersPages\<close> is
  \<open>DescribeCapacityProvidersPagesWithContext\<close> at the background context, for every
  connection, request, callback and world, so both return the same result and drive the
  callback through the same invocations. On a page that the service returns without an
  error, the loop invokes the callback with \<open>lastPage\<close> set exactly when the token of
  the page is empty; it returns nil when the callback answers \<open>false\<close> or the page is
  the last, and otherwise goes on with the token of the page in the request. In a run of
  the loop that returns, every invocation of the callback got \<open>lastPage = true\<close>
  exactly when the token of its page was empty; every invocation but the last was
  answered \<open>true\<close> on a page that was not the last; and when the loop returns without
  an error, the last invocation was answered \<open>false\<close> or was on the last page.
\<close>

theorem pages_equal_with_background:
  "DescribeCapacityProvidersPages background call conn input fn w =
     DescribeCapacityProvidersPagesWithContext call background conn input fn w \<and>
   (call ctx conn input w = ((Some out, None), wa) \<and>
    fn (Some out) (StringValue (DescribeCapacityProvidersOutput_NextToken out) = []) wa = (continue, wb) \<longrightarrow>
      DescribeCapacityProvidersPagesWithContext call ctx conn input fn w =
        (if \<not> continue \<or> StringValue (DescribeCapacityProvidersOutput_NextToken out) = []
           then Some (Return None, input, wb)
         else DescribeCapacityProvidersPagesWithContext call ctx conn
                (input\<lparr>DescribeCapacityProvidersInput_NextToken :=
                          DescribeCapacityProvidersOutput_NextToken out\<rparr>) fn wb)) \<and>
   (DescribeCapacityProvidersPagesWithContext (unlogged call) ctx conn input (logged fn) (w, []) =
      Some (r, input', w', log) \<longrightarrow>
      (\<forall>entry\<in>set log. flag_matches_token entry) \<and>
      (\<forall>entry\<in>set (butlast log). went_on entry) \<and>
      (r = Return None \<longrightarrow> log \<noteq> [] \<and> \<not> went_on (last log)) \<and>
      (r \<noteq> Return None \<longrightarrow> (\<forall>entry\<in>set log. went_on entry)))"
proof (intro conjI impI)
  show "DescribeCapacityProvidersPages background call conn input fn w =
     DescribeCapacityProvidersPagesWithContext call background conn input fn w"
    by (simp add: DescribeCapacityProvidersPages_def)
next
  assume "call ctx conn input w = ((Some out, None), wa) \<and>
    fn (Some out) (StringValue (DescribeCapacityProvidersOutput_NextToken out) = []) wa = (continue, wb)"
  then show "DescribeCapacityProvidersPagesWithContext call ctx conn input fn w =
        (if \<not> continue \<or> StringValue (DescribeCapacityProvidersOutput_NextToken out) = []
           then Some (Return None, input, wb)
         else DescribeCapacityProvidersPagesWithContext call ctx conn
                (input\<lparr>DescribeCapacityProvidersInput_NextToken :=
                          DescribeCapacityProvidersOutput_NextToken out\<rparr>) fn wb)"
    by (subst DescribeCapacityProvidersPagesWithContext.simps) simp
next
  assume run: "DescribeCapacityProvidersPagesWithContext (unlogged call) ctx conn input (logged fn) (w, []) =
      Some (r, input', w', log)"
  from pages_log_invariant[OF run refl refl]
  have inv: "(\<forall>entry\<in>set log. flag_matches_token entry) \<and>
      (\<forall>entry\<in>set (butlast log). went_on entry) \<and>
      (r = Return None \<longrightarrow> log \<noteq> [] \<and> \<not> went_on (last log)) \<and>
      (r \<noteq> Return None \<longrightarrow> (\<forall>entry\<in>set log. went_on entry))"
    by simp
  from inv show "\<forall>entry\<in>set log. flag_matches_token entry" by blast
  from inv show "\<forall>entry\<in>set (butlast log). went_on entry" by blast
  from inv show "log \<noteq> []" if "r = Return None" using that by blast
  from inv show "\<not> went_on (last log)" if "r = Return None" using that by blast
  from inv show "\<forall>entry\<in>set log. went_on entry" if "r \<noteq> Return None" using that by blast
qed

lemma two_pages_run:
  "DescribeCapacityProvidersPagesWithContext (unlogged two_pages) () ()
     \<lparr>DescribeCapacityProvidersInput_NextToken = None\<rparr> (logged keep_going) (0, []) =
   Some (Return None, \<lparr>DescribeCapacityProvidersInput_NextToken = Some ''t1''\<rparr>, 2,
     [(Some \<lparr>DescribeCapacityProvidersOutput_NextToken = Some ''t1''\<rparr>, False, True),
      (Some \<lparr>DescribeCapacityProvidersOutput_NextToken = None\<rparr>, True, True)])"
  apply (subst DescribeCapacityProvidersPagesWithContext.simps)
  apply (simp add: unlogged_def logged_def two_pages_def keep_going_def StringValue_def)
  apply (subst DescribeCapacityProvidersPagesWithContext.simps)
  apply (simp add: unlogged_def logged_def two_pages_def keep_going_def StringValue_def)
  done

lemma throttled_pages_run:
  "DescribeCapacityProvidersPagesWithContext (unlogged throttled_pages) () ()
     \<lparr>DescribeCapacityProvidersInput_NextToken = None\<rparr> (logged keep_going) (0, []) =
   Some (Return (Some ''throttled''), \<lparr>DescribeCapacityProvidersInput_NextToken = None\<rparr>, 1, [])"
  apply (subst DescribeCapacityProvidersPagesWithContext.simps)
  apply (simp add: unlogged_def throttled_pages_def)
  done

text \<open>
  Claim C8 at a service with two pages and at one that throttles, with a callback that
  always asks for more.
\<close>

theorem pages_equal_with_background_witness:
  "DescribeCapacityProvidersPages () two_pages () \<lparr>DescribeCapacityProvidersInput_NextToken = None\<rparr> keep_going 0 =
     DescribeCapacityProvidersPagesWithContext two_pages () () \<lparr>DescribeCapacityProvidersInput_NextToken = None\<rparr> keep_going 0 \<and>
   DescribeCapacityProvidersPagesWithContext two_pages () () \<lparr>DescribeCapacityProvidersInput_NextToken = None\<rparr> keep_going 0 =
     DescribeCapacityProvidersPagesWithContext two_pages () () \<lparr>DescribeCapacityProvidersInput_NextToken = Some ''t1''\<rparr> keep_going 1 \<and>
   DescribeCapacityProvidersPagesWithContext two_pages () () \<lparr>DescribeCapacityProvidersInput_NextToken = Some ''t1''\<rparr> keep_going 1 =
     Some (Return None, \<lparr>DescribeCapacityProvidersInput_NextToken = Some ''t1''\<rparr>, 2) \<and>
   DescribeCapacityProvidersPagesWithContext (unlogged two_pages) () ()
     \<lparr>DescribeCapacityProvidersInput_NextToken = None\<rparr> (logged keep_going) (0, []) =
   Some (Return None, \<lparr>DescribeCapacityProvidersInput_NextToken = Some ''t1''\<rparr>, 2,
     [(Some \<lparr>DescribeCapacityProvidersOutput_NextToken = Some ''t1''\<rparr>, False, True),
      (Some \<lparr>DescribeCapacityProvidersOutput_NextToken = None\<rparr>, True, True)]) \<and>
   flag_matches_token (Some \<lparr>DescribeCapacityProvidersOutput_NextToken = Some ''t1''\<rparr>, False, True) \<and>
   flag_matches_token (Some \<lparr>DescribeCapacityProvidersOutput_NextToken = None\<rparr>, True, True) \<and>
   went_on (Some \<lparr>DescribeCapacityProvidersOutput_NextToken = Some ''t1''\<rparr>, False, True) \<and>
   \<not> went_on (Some \<lparr>DescribeCapacityProvidersOutput_NextToken = None\<rparr>, True, True) \<and>
   DescribeCapacityProvidersPagesWithContext (unlogged throttled_pages) () ()
     \<lparr>DescribeCapacityProvidersInput_NextToken = None\<rparr> (logged keep_going) (0, []) =
   Some (Return (Some ''throttled''), \<lparr>DescribeCapacityProvidersInput_NextToken = None\<rparr>, 1, [])"
  using pages_equal_with_background [where background = "()" and call = two_pages and conn = "()"
      and ctx = "()" and input = "\<lparr>DescribeCapacityProvidersInput_NextToken = None\<rparr>"
      and fn = keep_going and w = 0 and r = "Return None"
      and input' = "\<lparr>DescribeCapacityProvidersInput_NextToken = Some ''t1''\<rparr>" and w' = 2
      and log = "[(Some \<lparr>DescribeCapacityProvidersOutput_NextToken = Some ''t1''\<rparr>, False, True),
      (Some \<lparr>DescribeCapacityProvidersOutput_NextToken = None\<rparr>, True, True)]"
      and out = "\<lparr>DescribeCapacityProvidersOutput_NextToken = Some ''t1''\<rparr>" and wa = 1
      and continue = True and wb = 1]
    pages_equal_with_background [where call = two_pages and conn = "()"
      and ctx = "()" and input = "\<lparr>DescribeCapacityProvidersInput_NextToken = Some ''t1''\<rparr>"
      and fn = keep_going and w = 1
      and out = "\<lparr>DescribeCapacityProvidersOutput_NextToken = None\<rparr>" and wa = 2
      and continue = True and wb = 2]
    pages_equal_with_background [where call = throttled_pages and conn = "()"
      and ctx = "()" and input = "\<lparr>DescribeCapacityProvidersInput_NextToken = None\<rparr>"
      and fn = keep_going and w = 0 and r = "Return (Some ''throttled'')"
      and input' = "\<lparr>DescribeCapacityProvidersInput_NextToken = None\<rparr>" and w' = 1
      and log = "[]"]
    two_pages_run throttled_pages_run
  by (simp add: went_on_def flag_matches_token_def StringValue_def two_pages_def keep_going_def)

section \<open>Properties of the SES configuration set\<close>

text \<open>
  Claim C9: when \<open>DeleteConfigurationSet\<close> fails with
  \<open>ConfigurationSetDoesNotExistException\<close>, \<open>resourceAwsSesConfigurationSetDelete\<close>
  returns nil; and it returns an error exactly when \<open>DeleteConfigurationSet\<close> fails
  with an error that is not that exception.
\<close>

theorem delete_idempotent_on_absence:
  "(DeleteConfigurationSet (sesconn meta) \<lparr>ConfigurationSetName = Some (ResourceData_Id d)\<rparr> w = ((out, Some e), w') \<and>
      isAWSErr e ErrCodeConfigurationSetDoesNotExistException [] \<longrightarrow>
      resourceAwsSesConfigurationSetDelete isAWSErr DeleteConfigurationSet d meta w = (None, w')) \<and>
   (fst (resourceAwsSesConfigurationSetDelete isAWSErr DeleteConfigurationSet d meta w) \<noteq> None \<longleftrightarrow>
      (\<exists>e. snd (fst (DeleteConfigurationSet (sesconn meta) \<lparr>ConfigurationSetName = Some (ResourceData_Id d)\<rparr> w)) = Some e \<and>
           \<not> isAWSErr e ErrCodeConfigurationSetDoesNotExistException []))"
  by (auto simp: resourceAwsSesConfigurationSetDelete_def split: prod.splits option.splits)

text \<open>
  Claim C9 at a service that reports the configuration set as missing, and at one that
  throttles.
\<close>

theorem delete_idempotent_on_absence_witness:
  "resourceAwsSesConfigurationSetDelete sample_isAWSErr (fetch_gives (None :: unit option) (Some ''ConfigurationSetDoesNotExist''))
     \<lparr>ResourceData_Id = ''cs-1''\<rparr> \<lparr>sesconn = ()\<rparr> 0 = (None, 1) \<and>
   fst (resourceAwsSesConfigurationSetDelete sample_isAWSErr (fetch_gives (None :: unit option) (Some ''Throttling''))
     \<lparr>ResourceData_Id = ''cs-1''\<rparr> \<lparr>sesconn = ()\<rparr> 0) \<noteq> None"
  using delete_idempotent_on_absence [where isAWSErr = sample_isAWSErr
      and DeleteConfigurationSet = "fetch_gives (None :: unit option) (Some ''ConfigurationSetDoesNotExist'')"
      and d = "\<lparr>ResourceData_Id = ''cs-1''\<rparr>" and meta = "\<lparr>sesconn = ()\<rparr>" and w = 0 and w' = 1
      and e = "''ConfigurationSetDoesNotExist''" and out = None]
    delete_idempotent_on_absence [where isAWSErr = sample_isAWSErr
      and DeleteConfigurationSet = "fetch_gives (None :: unit option) (Some ''Throttling'')"
      and d = "\<lparr>ResourceData_Id = ''cs-1''\<rparr>" and meta = "\<lparr>sesconn = ()\<rparr>" and w = 0]
  by (simp add: fetch_gives_def sample_isAWSErr_def ErrCodeConfigurationSetDoesNotExistException_def)

text \<open>
  Claim C10: for a one-element list whose element is a map sending \<open>tls_policy\<close> to a
  non-empty string \<open>v\<close>, flattening the expanded list gives a one-element list whose
  element is the map sending \<open>tls_policy\<close> to \<open>v\<close>; the expansion of the empty list and
  of a list whose first element is nil is nil, and flattening nil gives nil.
\<close>

theorem delivery_options_round_trip:
  "(tfMap ''tls_policy'' = Some (VString v) \<and> v \<noteq> [] \<longrightarrow>
      flattenSesConfigurationSetDeliveryOptions (expandSesConfigurationSetDeliveryOptions [VMap tfMap]) =
        Some [VMap [''tls_policy'' \<mapsto> VString v]]) \<and>
   expandSesConfigurationSetDeliveryOptions [] = None \<and>
   expandSesConfigurationSetDeliveryOptions (VNil # l) = None \<and>
   flattenSesConfigurationSetDeliveryOptions None = None"
  by (simp add: expandSesConfigurationSetDeliveryOptions_def flattenSesConfigurationSetDeliveryOptions_def
      StringValue_def)

text \<open>
  Claim C10 at the policy \<open>Require\<close>.
\<close>

theorem delivery_options_round_trip_witness:
  "flattenSesConfigurationSetDeliveryOptions
     (expandSesConfigurationSetDeliveryOptions [VMap [''tls_policy'' \<mapsto> VString ''Require'']]) =
   Some [VMap [''tls_policy'' \<mapsto> VString ''Require'']]"
  using delivery_options_round_trip [where tfMap = "[''tls_policy'' \<mapsto> VString ''Require'']" and v = "''Require''"]
  by simp

section \<open>Properties of the convergence waiter\<close>

lemmas wait_run_defs =
  Wait_def sample_config_def tolerant_config_def misconfigured_table_def never_def
  sequence_probe_def elapsedAt_def classify_def

lemma elapsedAt_mono: "i \<le> j \<Longrightarrow> elapsedAt config i \<le> elapsedAt config j"
  by (simp add: elapsedAt_def)

lemma poll_target_step:
  assumes "\<not> cancellationSignal config (elapsedAt config n)"
    and "elapsedAt config n \<le> timeout config"
    and "probe n = (snap, s, None)"
    and "classify tbl s = Target"
  shows "poll config probe tbl n u ls lsn = Some (Inr snap)"
  using assms by (subst poll.simps) simp

lemma poll_failure_step:
  assumes "\<not> cancellationSignal config (elapsedAt config n)"
    and "elapsedAt config n \<le> timeout config"
    and "probe n = (snap, s, None)"
    and "classify tbl s = Failure"
  shows "poll config probe tbl n u ls lsn = Some (Inl (TargetNotReached s snap))"
  using assms by (subst poll.simps) simp

lemma poll_continue_step:
  assumes "\<not> cancellationSignal config (elapsedAt config n)"
    and "elapsedAt config n \<le> timeout config"
    and "probe n = (snap, s, None)"
    and "s \<notin> failure tbl" and "s \<notin> target tbl"
    and "unknownsBefore probe tbl (Suc n) \<le> unknownStatusTolerance config"
  shows "poll config probe tbl n (unknownsBefore probe tbl n) ls lsn =
         poll config probe tbl (Suc n) (unknownsBefore probe tbl (Suc n)) s snap"
proof (cases "classify tbl s")
  case Failure
  then show ?thesis using assms(4) by (simp add: classify_def split: if_splits)
next
  case Target
  then show ?thesis using assms(4,5) by (simp add: classify_def split: if_splits)
next
  case Pending
  then show ?thesis using assms(1-3) by (subst poll.simps) simp
next
  case Unknown
  show ?thesis
  proof (cases snap)
    case None
    then show ?thesis using assms(1-3) Unknown by (subst poll.simps) simp
  next
    case (Some x)
    then have "Suc (unknownsBefore probe tbl n) \<le> unknownStatusTolerance config"
      using assms(3,6) Unknown by simp
    then show ?thesis using assms(1-3) Unknown Some by (subst poll.simps) simp
  qed
qed

lemma wait_reaches_tick:
  assumes "\<forall>i<k. \<exists>snap s. probe i = (snap, s, None) \<and> s \<notin> failure tbl \<and> s \<notin> target tbl"
    and "\<forall>i\<le>k. unknownsBefore probe tbl i \<le> unknownStatusTolerance config"
    and "\<forall>i<k. \<not> cancellationSignal config (elapsedAt config i)"
    and "\<forall>i<k. elapsedAt config i \<le> timeout config"
  shows "\<exists>ls lsn. Wait config probe tbl = poll config probe tbl k (unknownsBefore probe tbl k) ls lsn"
  using assms
proof (induction k)
  case 0
  then show ?case by (auto simp: Wait_def)
next
  case (Suc k)
  have "\<exists>ls lsn. Wait config probe tbl = poll config probe tbl k (unknownsBefore probe tbl k) ls lsn"
    using Suc.prems by (intro Suc.IH) auto
  then obtain ls lsn where reach:
    "Wait config probe tbl = poll config probe tbl k (unknownsBefore probe tbl k) ls lsn"
    by blast
  from Suc.prems(1) obtain snap s where obs:
    "probe k = (snap, s, None)" "s \<notin> failure tbl" "s \<notin> target tbl"
    by blast
  have "poll config probe tbl k (unknownsBefore probe tbl k) ls lsn =
        poll config probe tbl (Suc k) (unknownsBefore probe tbl (Suc k)) s snap"
    using Suc.prems(2,3,4) obs by (intro poll_continue_step) auto
  then show ?case using reach by metis
qed

lemma wait_decided_at:
  assumes "\<forall>i<k. \<exists>snap s. probe i = (snap, s, None) \<and> s \<notin> failure tbl \<and> s \<notin> target tbl"
    and "\<forall>i\<le>k. unknownsBefore probe tbl i \<le> unknownStatusTolerance config"
    and "\<forall>i\<le>k. \<not> cancellationSignal config (elapsedAt config i)"
    and "elapsedAt config k \<le> timeout config"
  shows "\<exists>u ls lsn. Wait config probe tbl = poll config probe tbl k u ls lsn"
proof -
  have "\<forall>i<k. elapsedAt config i \<le> timeout config"
    using assms(4) elapsedAt_mono[of _ k config] by (meson le_trans less_imp_le_nat)
  moreover have "\<forall>i<k. \<not> cancellationSignal config (elapsedAt config i)"
    using assms(3) by simp
  ultimately show ?thesis
    using wait_reaches_tick[of k probe tbl config] assms(1,2) by blast
qed

lemma poll_success_is_first_decision:
  assumes "poll config probe tbl n u ls lsn = Some r"
  shows "r = Inr snap \<Longrightarrow> u = unknownsBefore probe tbl n \<Longrightarrow>
         \<exists>k s. n \<le> k \<and> probe k = (snap, s, None) \<and> s \<in> target tbl \<and> s \<notin> failure tbl \<and>
               elapsedAt config k \<le> timeout config \<and>
               (\<forall>i. n \<le> i \<and> i \<le> k \<longrightarrow> \<not> cancellationSignal config (elapsedAt config i)) \<and>
               (\<forall>i. n \<le> i \<and> i < k \<longrightarrow>
                  (\<exists>snap' s'. probe i = (snap', s', None) \<and> s' \<notin> failure tbl \<and> s' \<notin> target tbl)) \<and>
               (\<forall>i. n < i \<and> i \<le> k \<longrightarrow> unknownsBefore probe tbl i \<le> unknownStatusTolerance config)"
  using assms
proof (induction rule: poll.raw_induct[rotated 1, consumes 1])
  case (1 loop config probe tbl n u ls lsn r)
  obtain snapshot status err where obs: "probe n = (snapshot, status, err)"
    by (metis surj_pair)
  have alive: "\<not> cancellationSignal config (elapsedAt config n)" "elapsedAt config n \<le> timeout config"
    using "1.hyps" "1.prems" by (auto split: if_splits)
  have noerr: "err = None"
    using "1.hyps" "1.prems" obs alive by (auto split: option.splits)
  have later: "\<exists>k s. n \<le> k \<and> probe k = (snap, s, None) \<and> s \<in> target tbl \<and> s \<notin> failure tbl \<and>
               elapsedAt config k \<le> timeout config \<and>
               (\<forall>i. n \<le> i \<and> i \<le> k \<longrightarrow> \<not> cancellationSignal config (elapsedAt config i)) \<and>
               (\<forall>i. n \<le> i \<and> i < k \<longrightarrow>
                  (\<exists>snap' s'. probe i = (snap', s', None) \<and> s' \<notin> failure tbl \<and> s' \<notin> target tbl)) \<and>
               (\<forall>i. n < i \<and> i \<le> k \<longrightarrow> unknownsBefore probe tbl i \<le> unknownStatusTolerance config)"
    if rec: "loop config probe tbl (Suc n) (unknownsBefore probe tbl (Suc n)) status snapshot = Some r"
      and clean: "status \<notin> failure tbl" "status \<notin> target tbl"
      and bound: "unknownsBefore probe tbl (Suc n) \<le> unknownStatusTolerance config"
  proof -
    from "1.IH"[OF rec "1.prems"(1) refl] obtain k s where k:
      "Suc n \<le> k" "probe k = (snap, s, None)" "s \<in> target tbl" "s \<notin> failure tbl"
      "elapsedAt config k \<le> timeout config"
      "\<forall>i. Suc n \<le> i \<and> i \<le> k \<longrightarrow> \<not> cancellationSignal config (elapsedAt config i)"
      "\<forall>i. Suc n \<le> i \<and> i < k \<longrightarrow>
          (\<exists>snap' s'. probe i = (snap', s', None) \<and> s' \<notin> failure tbl \<and> s' \<notin> target tbl)"
      "\<forall>i. Suc n < i \<and> i \<le> k \<longrightarrow> unknownsBefore probe tbl i \<le> unknownStatusTolerance config"
      by blast
    have c1: "\<not> cancellationSignal config (elapsedAt config i)" if "n \<le> i" "i \<le> k" for i
    proof (cases "i = n")
      case True
      then show ?thesis using alive by simp
    next
      case False
      then show ?thesis using that k(6) by (simp add: Suc_leI)
    qed
    have c2: "\<exists>snap' s'. probe i = (snap', s', None) \<and> s' \<notin> failure tbl \<and> s' \<notin> target tbl"
      if "n \<le> i" "i < k" for i
    proof (cases "i = n")
      case True
      then show ?thesis using obs noerr clean by simp
    next
      case False
      then show ?thesis using that k(7) by (simp add: Suc_leI)
    qed
    have c3: "unknownsBefore probe tbl i \<le> unknownStatusTolerance config" if "n < i" "i \<le> k" for i
    proof (cases "i = Suc n")
      case True
      then show ?thesis using bound by simp
    next
      case False
      then have "Suc n < i" using that by simp
      then show ?thesis using that k(8) by simp
    qed
    show ?thesis
      using k(1-5) c1 c2 c3 by (intro exI[of _ k] exI[of _ s]) auto
  qed
  show ?case
  proof (cases "classify tbl status")
    case Target
    then have "status \<in> target tbl \<and> status \<notin> failure tbl"
      by (auto simp: classify_def split: if_splits)
    moreover have "snapshot = snap"
      using "1.hyps" "1.prems" obs alive noerr Target by auto
    ultimately show ?thesis
      using obs noerr alive by (intro exI[of _ n] exI[of _ status]) auto
  next
    case Failure
    then show ?thesis
      using "1.hyps" "1.prems" obs alive noerr by auto
  next
    case Pending
    then have clean: "status \<notin> failure tbl" "status \<notin> target tbl"
      by (auto simp: classify_def split: if_splits)
    have next0: "unknownsBefore probe tbl (Suc n) = 0"
      using obs Pending by simp
    have "loop config probe tbl (Suc n) 0 status snapshot = Some r"
      using "1.hyps" obs alive noerr Pending by auto
    then show ?thesis using later clean next0 by simp
  next
    case Unknown
    then have clean: "status \<notin> failure tbl" "status \<notin> target tbl"
      by (auto simp: classify_def split: if_splits)
    show ?thesis
    proof (cases snapshot)
      case None
      then have next0: "unknownsBefore probe tbl (Suc n) = 0"
        using obs by simp
      have "loop config probe tbl (Suc n) 0 status snapshot = Some r"
        using "1.hyps" obs alive noerr Unknown None by auto
      then show ?thesis using later clean next0 by simp
    next
      case (Some x)
      then have next1: "unknownsBefore probe tbl (Suc n) = Suc u"
        using obs Unknown "1.prems"(2) by simp
      have within: "\<not> unknownStatusTolerance config < Suc u"
        using "1.hyps" "1.prems"(1) obs alive noerr Unknown Some by (auto split: if_splits)
      then have "loop config probe tbl (Suc n) (Suc u) status snapshot = Some r"
        using "1.hyps" obs alive noerr Unknown Some by auto
      then show ?thesis using later clean next1 within by simp
    qed
  qed
qed

text \<open>
  Claim C2: a status in the failure set is classified as a failure whether or not it is
  also in the target set, and a target status that is no failure status is a target
  whether or not it is pending. Whenever the wait gets as far as an observation whose
  status is in the failure set (also one that is in the target set as well), \<open>Wait\<close>
  returns the failure error \<open>TargetNotReached\<close> with that status and snapshot. The wait
  gets that far when the tick is within the timeout window, the cancellation signal has
  not fired by then, no earlier observation came with an error, a failure status or a
  target status, and the Unknown observations in a row never outnumbered the tolerance;
  the earlier observations may be pending, absent or tolerated Unknown ones.
  And \<open>Wait\<close> never returns success on or after a failure status: a snapshot it
  returns was observed, under those same conditions, with a status in the target set and
  outside the failure set, and no earlier observation had a failure status.
\<close>

theorem failure_precedes_target:
  "(status \<in> failure tbl \<longrightarrow> classify tbl status = Failure) \<and>
   (status \<notin> failure tbl \<and> status \<in> target tbl \<longrightarrow> classify tbl status = Target) \<and>
   (probe k = (snapshot, status, None) \<and> status \<in> failure tbl \<and>
    elapsedAt config k \<le> timeout config \<and>
    (\<forall>i\<le>k. \<not> cancellationSignal config (elapsedAt config i)) \<and>
    (\<forall>i<k. \<exists>snap s. probe i = (snap, s, None) \<and> s \<notin> failure tbl \<and> s \<notin> target tbl) \<and>
    (\<forall>i\<le>k. unknownsBefore probe tbl i \<le> unknownStatusTolerance config) \<longrightarrow>
      Wait config probe tbl = Some (Inl (TargetNotReached status snapshot))) \<and>
   (Wait config probe tbl = Some (Inr snap) \<longrightarrow>
      (\<exists>j s. probe j = (snap, s, None) \<and> s \<in> target tbl \<and> s \<notin> failure tbl \<and>
             elapsedAt config j \<le> timeout config \<and>
             (\<forall>i\<le>j. \<not> cancellationSignal config (elapsedAt config i)) \<and>
             (\<forall>i<j. \<exists>snap' s'. probe i = (snap', s', None) \<and> s' \<notin> failure tbl \<and> s' \<notin> target tbl) \<and>
             (\<forall>i\<le>j. unknownsBefore probe tbl i \<le> unknownStatusTolerance config)))"
proof (intro conjI impI)
  show "classify tbl status = Failure" if "status \<in> failure tbl"
    using that by (simp add: classify_def)
  show "classify tbl status = Target" if "status \<notin> failure tbl \<and> status \<in> target tbl"
    using that by (simp add: classify_def)
  show "Wait config probe tbl = Some (Inl (TargetNotReached status snapshot))"
    if h: "probe k = (snapshot, status, None) \<and> status \<in> failure tbl \<and>
        elapsedAt config k \<le> timeout config \<and>
        (\<forall>i\<le>k. \<not> cancellationSignal config (elapsedAt config i)) \<and>
        (\<forall>i<k. \<exists>snap s. probe i = (snap, s, None) \<and> s \<notin> failure tbl \<and> s \<notin> target tbl) \<and>
        (\<forall>i\<le>k. unknownsBefore probe tbl i \<le> unknownStatusTolerance config)"
  proof -
    obtain u ls lsn where "Wait config probe tbl = poll config probe tbl k u ls lsn"
      using wait_decided_at[of k probe tbl config] h by blast
    moreover have "classify tbl status = Failure"
      using h by (simp add: classify_def)
    ultimately show ?thesis
      using h poll_failure_step[of config k probe snapshot status tbl u ls lsn] by simp
  qed
  show "\<exists>j s. probe j = (snap, s, None) \<and> s \<in> target tbl \<and> s \<notin> failure tbl \<and>
             elapsedAt config j \<le> timeout config \<and>
             (\<forall>i\<le>j. \<not> cancellationSignal config (elapsedAt config i)) \<and>
             (\<forall>i<j. \<exists>snap' s'. probe i = (snap', s', None) \<and> s' \<notin> failure tbl \<and> s' \<notin> target tbl) \<and>
             (\<forall>i\<le>j. unknownsBefore probe tbl i \<le> unknownStatusTolerance config)"
    if run: "Wait config probe tbl = Some (Inr snap)"
  proof -
    from run have "poll config probe tbl 0 (unknownsBefore probe tbl 0) [] None = Some (Inr snap)"
      by (simp add: Wait_def)
    from poll_success_is_first_decision[OF this refl refl] obtain j s where j:
      "probe j = (snap, s, None)" "s \<in> target tbl" "s \<notin> failure tbl"
      "elapsedAt config j \<le> timeout config"
      "\<forall>i. 0 \<le> i \<and> i \<le> j \<longrightarrow> \<not> cancellationSignal config (elapsedAt config i)"
      "\<forall>i. 0 \<le> i \<and> i < j \<longrightarrow>
          (\<exists>snap' s'. probe i = (snap', s', None) \<and> s' \<notin> failure tbl \<and> s' \<notin> target tbl)"
      "\<forall>i. 0 < i \<and> i \<le> j \<longrightarrow> unknownsBefore probe tbl i \<le> unknownStatusTolerance config"
      by blast
    have "unknownsBefore probe tbl i \<le> unknownStatusTolerance config" if "i \<le> j" for i
      using that j(7) by (cases i) auto
    then show ?thesis
      using j(1-6) by (intro exI[of _ j] exI[of _ s]) auto
  qed
qed

lemma misconfigured_success_run:
  "Wait sample_config
     (sequence_probe [(Some (1::nat), ''PENDING'', None :: string option)] (Some 2, ''AVAILABLE'', None))
     misconfigured_table = Some (Inr (Some 2))"
  apply (simp only: Wait_def)
  apply (subst poll.simps, simp add: wait_run_defs)
  apply (subst poll.simps, simp add: wait_run_defs)
  done

text \<open>
  Claim C2 at a table that lists \<open>FAILED\<close> as target and as failure: after a tolerated
  Unknown observation the status \<open>FAILED\<close> ends the wait with the failure error, although
  \<open>AVAILABLE\<close> would follow; and a success of that table was observed with \<open>AVAILABLE\<close>.
\<close>

theorem failure_precedes_target_witness:
  "classify misconfigured_table ''FAILED'' = Failure \<and>
   classify misconfigured_table ''AVAILABLE'' = Target \<and>
   Wait tolerant_config
     (sequence_probe [(Some (1::nat), ''WEIRD'', None :: string option), (Some 2, ''FAILED'', None)]
        (Some 3, ''AVAILABLE'', None))
     misconfigured_table = Some (Inl (TargetNotReached ''FAILED'' (Some 2))) \<and>
   Wait sample_config
     (sequence_probe [(Some (1::nat), ''PENDING'', None :: string option)] (Some 2, ''AVAILABLE'', None))
     misconfigured_table = Some (Inr (Some 2)) \<and>
   (\<exists>j s. sequence_probe [(Some (1::nat), ''PENDING'', None :: string option)] (Some 2, ''AVAILABLE'', None) j =
            (Some 2, s, None) \<and> s \<in> target misconfigured_table \<and> s \<notin> failure misconfigured_table)"
  using failure_precedes_target [where tbl = misconfigured_table and status = "''FAILED''"
      and config = tolerant_config
      and probe = "sequence_probe [(Some (1::nat), ''WEIRD'', None :: string option), (Some 2, ''FAILED'', None)]
        (Some 3, ''AVAILABLE'', None)"
      and k = "Suc 0" and snapshot = "Some 2"]
    failure_precedes_target [where tbl = misconfigured_table and status = "''AVAILABLE''"]
    failure_precedes_target [where config = sample_config and tbl = misconfigured_table
      and probe = "sequence_probe [(Some (1::nat), ''PENDING'', None :: string option)] (Some 2, ''AVAILABLE'', None)"
      and snap = "Some 2"]
    misconfigured_success_run
  apply (simp add: wait_run_defs le_Suc_eq)
  apply blast
  done

lemma both_sets_run:
  "Wait sample_config
     (sequence_probe [(Some (1::nat), ''PENDING'', None :: string option)] (Some 2, ''FAILED'', None))
     misconfigured_table = Some (Inl (TargetNotReached ''FAILED'' (Some 2)))"
  apply (simp only: Wait_def)
  apply (subst poll.simps, simp add: wait_run_defs)
  apply (subst poll.simps, simp add: wait_run_defs)
  done

lemma failure_first_run:
  "Wait sample_config
     (sequence_probe [(Some (1::nat), ''PENDING'', None :: string option), (Some 2, ''FAILED'', None)]
        (Some 3, ''AVAILABLE'', None))
     sample_table = Some (Inl (TargetNotReached ''FAILED'' (Some 2)))"
  apply (simp only: Wait_def)
  apply (subst poll.simps, simp add: wait_run_defs sample_table_def cancelled_config_def fires_from_def)
  apply (subst poll.simps, simp add: wait_run_defs sample_table_def cancelled_config_def fires_from_def)
  done

lemma error_first_run:
  "Wait sample_config
     (sequence_probe [(None :: nat option, [], None), (None, [], Some ''fault'')]
        (Some 3, ''AVAILABLE'', None))
     sample_table = Some (Inl (ProbeError ''fault''))"
  apply (simp only: Wait_def)
  apply (subst poll.simps, simp add: wait_run_defs sample_table_def cancelled_config_def fires_from_def)
  apply (subst poll.simps, simp add: wait_run_defs sample_table_def cancelled_config_def fires_from_def)
  done

lemma unknown_first_run:
  "Wait sample_config
     (sequence_probe [(Some (1::nat), ''WEIRD'', None :: string option)] (Some 2, ''AVAILABLE'', None))
     sample_table = Some (Inl (UnexpectedStatus ''WEIRD'' 1))"
  apply (simp only: Wait_def)
  apply (subst poll.simps, simp add: wait_run_defs sample_table_def cancelled_config_def fires_from_def)
  done

lemma cancelled_first_run:
  "Wait cancelled_config
     (sequence_probe [(Some (1::nat), ''PENDING'', None :: string option)] (Some 2, ''AVAILABLE'', None))
     sample_table = Some (Inl (Cancelled ''PENDING''))"
  apply (simp only: Wait_def)
  apply (subst poll.simps, simp add: wait_run_defs sample_table_def cancelled_config_def fires_from_def)
  apply (subst poll.simps, simp add: wait_run_defs sample_table_def cancelled_config_def fires_from_def)
  done

text \<open>
  Claim C4, as stated, fails, in five ways. Each run below has a non-empty target set
  and a probe that returns a status of the target set at a tick within the timeout
  window, and \<open>Wait\<close> returns an error: the target status \<open>FAILED\<close> is also a failure
  status; the failure status \<open>FAILED\<close> comes before \<open>AVAILABLE\<close> (Scenario C, continued);
  a probe fault comes before it (Scenario D, continued); an Unknown status comes before
  it and the tolerance is 0; the cancellation signal fires before it.
\<close>

theorem wait_reaches_target_counterexample:
  "target misconfigured_table \<noteq> {} \<and>
   sequence_probe [(Some (1::nat), ''PENDING'', None :: string option)] (Some 2, ''FAILED'', None) 1 =
     (Some 2, ''FAILED'', None) \<and>
   ''FAILED'' \<in> target misconfigured_table \<and>
   elapsedAt sample_config 1 \<le> timeout sample_config \<and>
   Wait sample_config
     (sequence_probe [(Some (1::nat), ''PENDING'', None :: string option)] (Some 2, ''FAILED'', None))
     misconfigured_table = Some (Inl (TargetNotReached ''FAILED'' (Some 2))) \<and>
   target sample_table \<noteq> {} \<and>
   ''AVAILABLE'' \<in> target sample_table \<and>
   elapsedAt sample_config 2 \<le> timeout sample_config \<and>
   elapsedAt cancelled_config 1 \<le> timeout cancelled_config \<and>
   sequence_probe [(Some (1::nat), ''PENDING'', None :: string option), (Some 2, ''FAILED'', None)]
     (Some 3, ''AVAILABLE'', None) 2 = (Some 3, ''AVAILABLE'', None) \<and>
   Wait sample_config
     (sequence_probe [(Some (1::nat), ''PENDING'', None :: string option), (Some 2, ''FAILED'', None)]
        (Some 3, ''AVAILABLE'', None))
     sample_table = Some (Inl (TargetNotReached ''FAILED'' (Some 2))) \<and>
   sequence_probe [(None :: nat option, [], None), (None, [], Some ''fault'')]
     (Some 3, ''AVAILABLE'', None) 2 = (Some 3, ''AVAILABLE'', None) \<and>
   Wait sample_config
     (sequence_probe [(None :: nat option, [], None), (None, [], Some ''fault'')]
        (Some 3, ''AVAILABLE'', None))
     sample_table = Some (Inl (ProbeError ''fault'')) \<and>
   sequence_probe [(Some (1::nat), ''WEIRD'', None :: string option)] (Some 2, ''AVAILABLE'', None) 1 =
     (Some 2, ''AVAILABLE'', None) \<and>
   Wait sample_config
     (sequence_probe [(Some (1::nat), ''WEIRD'', None :: string option)] (Some 2, ''AVAILABLE'', None))
     sample_table = Some (Inl (UnexpectedStatus ''WEIRD'' 1)) \<and>
   sequence_probe [(Some (1::nat), ''PENDING'', None :: string option)] (Some 2, ''AVAILABLE'', None) 1 =
     (Some 2, ''AVAILABLE'', None) \<and>
   Wait cancelled_config
     (sequence_probe [(Some (1::nat), ''PENDING'', None :: string option)] (Some 2, ''AVAILABLE'', None))
     sample_table = Some (Inl (Cancelled ''PENDING''))"
  using both_sets_run failure_first_run error_first_run unknown_first_run cancelled_first_run
  by (simp add: sample_config_def cancelled_config_def sample_table_def misconfigured_table_def
      sequence_probe_def elapsedAt_def)

lemma wait_succeeds_at_first_target:
  assumes "probe k = (snapshot, status, None)"
    and "status \<in> target tbl" and "status \<notin> failure tbl"
    and "elapsedAt config k \<le> timeout config"
    and "\<forall>i\<le>k. \<not> cancellationSignal config (elapsedAt config i)"
    and "\<forall>i<k. \<exists>snap s. probe i = (snap, s, None) \<and> s \<notin> failure tbl \<and> s \<notin> target tbl"
    and "\<forall>i\<le>k. unknownsBefore probe tbl i \<le> unknownStatusTolerance config"
  shows "Wait config probe tbl = Some (Inr snapshot)"
proof -
  obtain u ls lsn where "Wait config probe tbl = poll config probe tbl k u ls lsn"
    using wait_decided_at[of k probe tbl config] assms by blast
  moreover have "classify tbl status = Target"
    using assms by (simp add: classify_def)
  ultimately show ?thesis
    using assms poll_target_step[of config k probe snapshot status tbl u ls lsn] by simp
qed

text \<open>
  Claim C4, amended: when the probe returns a status of the target set at a tick within
  the timeout window, that status is no failure status, no earlier observation came with
  an error or a failure status, the Unknown observations in a row never outnumbered the
  tolerance, and the cancellation signal has not fired by that tick, \<open>Wait\<close> ends
  successfully and returns the snapshot of the first observation with a target status;
  that is the snapshot of the observation at hand when no earlier one had a target
  status. The earlier observations may be pending, absent or tolerated Unknown ones.
\<close>

theorem wait_reaches_target:
  assumes "probe k = (snapshot, status, None)"
    and "status \<in> target tbl" and "status \<notin> failure tbl"
    and "elapsedAt config k \<le> timeout config"
    and "\<forall>i\<le>k. \<not> cancellationSignal config (elapsedAt config i)"
    and "\<forall>i<k. \<exists>snap s. probe i = (snap, s, None) \<and> s \<notin> failure tbl"
    and "\<forall>i\<le>k. unknownsBefore probe tbl i \<le> unknownStatusTolerance config"
  shows "(\<exists>j snap s. j \<le> k \<and> probe j = (snap, s, None) \<and> s \<in> target tbl \<and>
            (\<forall>i<j. fst (snd (probe i)) \<notin> target tbl) \<and>
            Wait config probe tbl = Some (Inr snap)) \<and>
         ((\<forall>i<k. fst (snd (probe i)) \<notin> target tbl) \<longrightarrow>
            Wait config probe tbl = Some (Inr snapshot))"
proof
  have "\<exists>j. j \<le> k \<and> fst (snd (probe j)) \<in> target tbl"
    using assms(1,2) by (intro exI[of _ k]) simp
  then obtain j where j: "j \<le> k" "fst (snd (probe j)) \<in> target tbl"
    "\<forall>i<j. \<not> (i \<le> k \<and> fst (snd (probe i)) \<in> target tbl)"
    using exists_least_iff[of "\<lambda>j. j \<le> k \<and> fst (snd (probe j)) \<in> target tbl"] by blast
  have first: "\<forall>i<j. fst (snd (probe i)) \<notin> target tbl"
    using j(1,3) by auto
  obtain snap s where obs: "probe j = (snap, s, None)" "s \<notin> failure tbl"
  proof (cases "j = k")
    case True
    then show ?thesis using assms(1,3) that by simp
  next
    case False
    then have "j < k" using j(1) by simp
    then show ?thesis using assms(6) that by blast
  qed
  have s: "s \<in> target tbl" using j(2) obs(1) by simp
  have "Wait config probe tbl = Some (Inr snap)"
  proof (rule wait_succeeds_at_first_target[where probe = probe and k = j and config = config,
        OF obs(1) s obs(2)])
    show "elapsedAt config j \<le> timeout config"
      using assms(4) elapsedAt_mono[OF j(1), of config] by simp
    show "\<forall>i\<le>j. \<not> cancellationSignal config (elapsedAt config i)"
      using assms(5) j(1) by simp
    show "\<forall>i<j. \<exists>snap s. probe i = (snap, s, None) \<and> s \<notin> failure tbl \<and> s \<notin> target tbl"
    proof (intro allI impI)
      fix i assume "i < j"
      then have "i < k" using j(1) by simp
      then obtain snap' s' where "probe i = (snap', s', None)" "s' \<notin> failure tbl"
        using assms(6) by blast
      moreover have "fst (snd (probe i)) \<notin> target tbl" using first \<open>i < j\<close> by simp
      ultimately show "\<exists>snap s. probe i = (snap, s, None) \<and> s \<notin> failure tbl \<and> s \<notin> target tbl"
        by simp
    qed
    show "\<forall>i\<le>j. unknownsBefore probe tbl i \<le> unknownStatusTolerance config"
      using assms(7) j(1) by simp
  qed
  then show "\<exists>j snap s. j \<le> k \<and> probe j = (snap, s, None) \<and> s \<in> target tbl \<and>
            (\<forall>i<j. fst (snd (probe i)) \<notin> target tbl) \<and>
            Wait config probe tbl = Some (Inr snap)"
    using j(1) obs(1) s first by blast
next
  show "(\<forall>i<k. fst (snd (probe i)) \<notin> target tbl) \<longrightarrow>
            Wait config probe tbl = Some (Inr snapshot)"
  proof
    assume first: "\<forall>i<k. fst (snd (probe i)) \<notin> target tbl"
    have "\<forall>i<k. \<exists>snap s. probe i = (snap, s, None) \<and> s \<notin> failure tbl \<and> s \<notin> target tbl"
    proof (intro allI impI)
      fix i assume "i < k"
      then obtain snap' s' where "probe i = (snap', s', None)" "s' \<notin> failure tbl"
        using assms(6) by blast
      moreover have "fst (snd (probe i)) \<notin> target tbl" using first \<open>i < k\<close> by simp
      ultimately show "\<exists>snap s. probe i = (snap, s, None) \<and> s \<notin> failure tbl \<and> s \<notin> target tbl"
        by simp
    qed
    then show "Wait config probe tbl = Some (Inr snapshot)"
      using wait_succeeds_at_first_target[where probe = probe and k = k and config = config,
          OF assms(1-5) _ assms(7)] by blast
  qed
qed

text \<open>
  The amended claim C4 at a probe that reports the entity absent, then an Unknown
  status within the tolerance of 1, then \<open>PENDING\<close>, then \<open>AVAILABLE\<close>.
\<close>

theorem wait_reaches_target_witness:
  "Wait tolerant_config
     (sequence_probe [(None, [], None :: string option), (Some (1::nat), ''WEIRD'', None),
                      (Some 2, ''PENDING'', None)]
        (Some 3, ''AVAILABLE'', None))
     sample_table = Some (Inr (Some 3))"
  using wait_reaches_target [where config = tolerant_config and tbl = sample_table
      and probe = "sequence_probe [(None, [], None :: string option), (Some (1::nat), ''WEIRD'', None),
                      (Some 2, ''PENDING'', None)]
        (Some 3, ''AVAILABLE'', None)"
      and k = "Suc (Suc (Suc 0))" and status = "''AVAILABLE''" and snapshot = "Some 3"]
  by (simp add: wait_run_defs sample_table_def le_Suc_eq less_Suc_eq)

end
